theory Spec2Isabelle
  imports Main "HOL-Library.Char_ord" "HOL-Library.List_Lexorder" "HOL-Library.Sublist"
begin

section \<open>The translation-unit cache of core/libclang/SourceIndex.cpp\<close>

text \<open>
  \<open>SourceIndex\<close> keeps one parsed libclang translation unit per file name in the member
  \<open>translationUnits_\<close> (a \<open>std::map\<close> from \<open>std::string\<close> to \<open>StoredTranslationUnit\<close>) and
  decides in \<open>getTranslationUnit\<close> whether to hand out the stored unit, reparse it or
  build a new one. libclang, the compilation database and the file system are outside
  the class; what they answer during one call is collected in a record \<open>world\<close>, and
  the calls made to libclang and the messages given to \<open>LOG_ERROR_MESSAGE\<close> are
  appended to two lists kept next to the members, so that theorems can speak about
  them. The tracing to \<open>std::cerr\<close> under \<open>verbose_ > 0\<close> changes no member and
  decides no branch; it is left out.
\<close>

subsection \<open>Data\<close>

text \<open>A \<open>CXTranslationUnit\<close> is an opaque pointer; \<open>NULL\<close> is \<open>None\<close> where it can occur.\<close>

type_synonym CXTranslationUnit = nat
type_synonym time_t = int
type_synonym UnsavedFiles = "(string \<times> string) list"

record StoredTranslationUnit =
  compileArgs :: "string list"
  lastWriteTime :: time_t
  tu :: CXTranslationUnit

text \<open>
  The value returned by \<open>getTranslationUnit\<close>: the default-constructed, empty
  \<open>TranslationUnit()\<close> or \<open>TranslationUnit(filename, tu, &unsavedFiles_)\<close>. The third
  argument is always the address of the same member and is not repeated here.
\<close>

datatype TranslationUnit = EmptyTranslationUnit | TranslationUnit string CXTranslationUnit

text \<open>
  The calls into libclang, each with its arguments and with what libclang answered.
  \<open>DisposeCall\<close> also carries the key of the record whose unit is disposed
  (\<open>it->first\<close> in the source).
\<close>

datatype clang_call =
    ParseCall string "string list" UnsavedFiles "CXTranslationUnit option"
  | ReparseCall CXTranslationUnit UnsavedFiles int
  | DisposeCall string CXTranslationUnit

text \<open>
  What the surroundings answer during one call. \<open>compileArgsForTranslationUnit\<close> is
  the result of calling the function object of the compilation database.
  \<open>FilePath\<close> belongs to another part of the code base; \<open>getTranslationUnit\<close> takes the
  result of its \<open>lastWriteTime()\<close> as a \<open>std::time_t\<close>, which is the parameter
  \<open>filePath_lastWriteTime\<close> here, whatever the state of the file is. \<open>fileReadable\<close>
  says whether the file's modification time can be read at all; \<open>SourceIndex\<close> has
  no way to ask.
\<close>

record world =
  compileArgsForTranslationUnit :: "string \<Rightarrow> string list"
  fileReadable :: "string \<Rightarrow> bool"
  filePath_lastWriteTime :: "string \<Rightarrow> time_t"
  parseTranslationUnit :: "string \<Rightarrow> string list \<Rightarrow> UnsavedFiles \<Rightarrow> CXTranslationUnit option"
  reparseTranslationUnit :: "CXTranslationUnit \<Rightarrow> UnsavedFiles \<Rightarrow> int"

text \<open>
  The members of \<open>SourceIndex\<close>, named as in the class without the closing
  underscore. \<open>compilationDB_set\<close> is the truth value of
  \<open>compilationDB_.compileArgsForTranslationUnit\<close> (whether the function object holds
  a function). \<open>clangCalls\<close> and \<open>errorLog\<close> record the effects outside the class.
\<close>

record SourceIndex =
  verbose :: int
  compilationDB_set :: bool
  translationUnits :: "(string \<times> StoredTranslationUnit) list"
  unsavedFiles :: UnsavedFiles
  clangCalls :: "clang_call list"
  errorLog :: "string list"

subsection \<open>The map \<open>translationUnits_\<close>\<close>

text \<open>
  A \<open>std::map\<close> keeps its entries in the order of the keys, which is the order
  \<open>removeAllTranslationUnits\<close> walks through. It is an association list here:
  \<open>tu_find\<close> is \<open>find\<close>, \<open>tu_erase\<close> is \<open>erase\<close>, and \<open>tu_store\<close> is the assignment
  \<open>translationUnits_[filename] = ...\<close>, which replaces the entry of an existing key
  and otherwise inserts before the first greater key.
\<close>

definition tu_find :: "string \<Rightarrow> (string \<times> StoredTranslationUnit) list \<Rightarrow> StoredTranslationUnit option" where
  "tu_find filename m = map_of m filename"

definition tu_erase :: "string \<Rightarrow> (string \<times> StoredTranslationUnit) list \<Rightarrow> (string \<times> StoredTranslationUnit) list" where
  "tu_erase filename m = filter (\<lambda>e. fst e \<noteq> filename) m"

fun tu_store :: "string \<Rightarrow> StoredTranslationUnit \<Rightarrow> (string \<times> StoredTranslationUnit) list \<Rightarrow> (string \<times> StoredTranslationUnit) list" where
  "tu_store filename v [] = [(filename, v)]"
| "tu_store filename v (e # m) =
     (if fst e = filename then (filename, v) # m
      else if filename < fst e then (filename, v) # e # m
      else e # tu_store filename v m)"

subsection \<open>The operations\<close>

text \<open>The constructor: no unit is stored yet.\<close>

definition newSourceIndex :: "bool \<Rightarrow> int \<Rightarrow> SourceIndex" where
  "newSourceIndex compilationDB verboseLevel =
     \<lparr>verbose = verboseLevel, compilationDB_set = compilationDB, translationUnits = [],
      unsavedFiles = [], clangCalls = [], errorLog = []\<rparr>"

definition removeTranslationUnit :: "string \<Rightarrow> SourceIndex \<Rightarrow> SourceIndex" where
  "removeTranslationUnit filename s =
     (case tu_find filename (translationUnits s) of
        Some stored \<Rightarrow>
          s\<lparr>clangCalls := clangCalls s @ [DisposeCall filename (tu stored)],
            translationUnits := tu_erase filename (translationUnits s)\<rparr>
      | None \<Rightarrow> s)"

definition removeAllTranslationUnits :: "SourceIndex \<Rightarrow> SourceIndex" where
  "removeAllTranslationUnits s =
     s\<lparr>clangCalls := clangCalls s @ map (\<lambda>e. DisposeCall (fst e) (tu (snd e))) (translationUnits s),
       translationUnits := []\<rparr>"

text \<open>
  Lines 145 to 151 of \<open>getTranslationUnit\<close>: the arguments for the file. \<open>None\<close> is the
  early \<open>return TranslationUnit()\<close> for an empty answer of the compilation database;
  without a function in the database the arguments stay empty and the call goes on.
\<close>

definition fetchArgs :: "world \<Rightarrow> string \<Rightarrow> SourceIndex \<Rightarrow> string list option" where
  "fetchArgs w filename s =
     (if compilationDB_set s
      then (let args = compileArgsForTranslationUnit w filename
            in if args = [] then None else Some args)
      else Some [])"

text \<open>Lines 212 and 213: \<open>-v\<close> is put behind the arguments for a verbosity of 2 or more.\<close>

definition parseArgs :: "SourceIndex \<Rightarrow> string list \<Rightarrow> string list" where
  "parseArgs s args = (if verbose s \<ge> 2 then args @ [''-v''] else args)"

text \<open>
  Lines 206 to 248: everything after the \<open>if\<close> over the stored record. Control gets
  here when no record was found, when the arguments differ, and also out of the
  \<open>else\<close> branch of a failed reparse, which only logs.
\<close>

definition rebuildTranslationUnit ::
  "world \<Rightarrow> string \<Rightarrow> string list \<Rightarrow> time_t \<Rightarrow> SourceIndex \<Rightarrow> TranslationUnit \<times> SourceIndex" where
  "rebuildTranslationUnit w filename args0 lwt s0 =
     (let s1 = removeTranslationUnit filename s0;
          args = parseArgs s1 args0;
          r = parseTranslationUnit w filename args (unsavedFiles s1);
          s2 = s1\<lparr>clangCalls := clangCalls s1 @ [ParseCall filename args (unsavedFiles s1) r]\<rparr>
      in case r of
           Some t \<Rightarrow>
             (TranslationUnit filename t,
              s2\<lparr>translationUnits :=
                   tu_store filename \<lparr>compileArgs = args, lastWriteTime = lwt, tu = t\<rparr>
                     (translationUnits s2)\<rparr>)
         | None \<Rightarrow>
             (EmptyTranslationUnit,
              s2\<lparr>errorLog := errorLog s2 @ [''Error parsing translation unit '' @ filename]\<rparr>))"

definition getTranslationUnit ::
  "world \<Rightarrow> string \<Rightarrow> bool \<Rightarrow> SourceIndex \<Rightarrow> TranslationUnit \<times> SourceIndex" where
  "getTranslationUnit w filename alwaysReparse s =
     (case fetchArgs w filename s of
        None \<Rightarrow> (EmptyTranslationUnit, s)
      | Some args \<Rightarrow>
          (let lwt = filePath_lastWriteTime w filename
           in case tu_find filename (translationUnits s) of
                Some stored \<Rightarrow>
                  if \<not> alwaysReparse \<and> args = compileArgs stored \<and> lwt = lastWriteTime stored
                  then (TranslationUnit filename (tu stored), s)
                  else if args = compileArgs stored
                  then
                    (let ret = reparseTranslationUnit w (tu stored) (unsavedFiles s);
                         s1 = s\<lparr>clangCalls := clangCalls s @
                                  [ReparseCall (tu stored) (unsavedFiles s) ret]\<rparr>
                     in if ret = 0
                        then (TranslationUnit filename (tu stored),
                              s1\<lparr>translationUnits :=
                                   tu_store filename (stored\<lparr>lastWriteTime := lwt\<rparr>)
                                     (translationUnits s1)\<rparr>)
                        else rebuildTranslationUnit w filename args lwt
                               (s1\<lparr>errorLog := errorLog s1 @
                                     [''Error re-parsing translation unit '' @ filename]\<rparr>))
                  else rebuildTranslationUnit w filename args lwt s
              | None \<Rightarrow> rebuildTranslationUnit w filename args lwt s))"

text \<open>
  \<open>primeEditorTranslationUnit\<close> and \<open>reprimeEditorTranslationUnit\<close> call
  \<open>getTranslationUnit(filename)\<close> and drop the result; the second parameter takes its
  default, \<open>false\<close>.
\<close>

definition primeEditorTranslationUnit :: "world \<Rightarrow> string \<Rightarrow> SourceIndex \<Rightarrow> SourceIndex" where
  "primeEditorTranslationUnit w filename s =
     (if tu_find filename (translationUnits s) = None
      then snd (getTranslationUnit w filename False s) else s)"

definition reprimeEditorTranslationUnit :: "world \<Rightarrow> string \<Rightarrow> SourceIndex \<Rightarrow> SourceIndex" where
  "reprimeEditorTranslationUnit w filename s =
     (if tu_find filename (translationUnits s) \<noteq> None
      then snd (getTranslationUnit w filename False s) else s)"

subsection \<open>Sequences of operations\<close>

text \<open>
  The operations that change \<open>translationUnits_\<close>, as values, and a run of them from
  the state the constructor leaves. \<open>SetUnsavedFiles\<close> stands for the code outside the
  class that changes the unsaved files through the accessor \<open>unsavedFiles()\<close> between
  two operations.
\<close>

datatype cache_op =
    GetTranslationUnit world string bool
  | RemoveTranslationUnit string
  | RemoveAllTranslationUnits
  | PrimeEditorTranslationUnit world string
  | ReprimeEditorTranslationUnit world string
  | SetUnsavedFiles UnsavedFiles

fun exec :: "SourceIndex \<Rightarrow> cache_op \<Rightarrow> SourceIndex" where
  "exec s (GetTranslationUnit w filename alwaysReparse) =
     snd (getTranslationUnit w filename alwaysReparse s)"
| "exec s (RemoveTranslationUnit filename) = removeTranslationUnit filename s"
| "exec s RemoveAllTranslationUnits = removeAllTranslationUnits s"
| "exec s (PrimeEditorTranslationUnit w filename) = primeEditorTranslationUnit w filename s"
| "exec s (ReprimeEditorTranslationUnit w filename) = reprimeEditorTranslationUnit w filename s"
| "exec s (SetUnsavedFiles u) = s\<lparr>unsavedFiles := u\<rparr>"

definition run :: "cache_op list \<Rightarrow> SourceIndex \<Rightarrow> SourceIndex" where
  "run ops s = foldl exec s ops"

subsection \<open>Reading the list of libclang calls\<close>

text \<open>
  \<open>unitsLive f cs\<close> replays the calls \<open>cs\<close> and keeps the units of file \<open>f\<close> that libclang
  has handed out and that have not been disposed since: a successful parse of \<open>f\<close>
  adds its unit, a dispose for \<open>f\<close> takes that unit away. \<open>unitCount\<close> counts the
  units libclang has handed out for \<open>f\<close>, \<open>disposeCount\<close> the dispose calls for \<open>f\<close>,
  and \<open>newCalls\<close> are the calls one operation has added.
\<close>

fun liveStep :: "string \<Rightarrow> CXTranslationUnit list \<Rightarrow> clang_call \<Rightarrow> CXTranslationUnit list" where
  "liveStep f live (ParseCall g a u r) =
     (case r of Some t \<Rightarrow> if g = f then live @ [t] else live | None \<Rightarrow> live)"
| "liveStep f live (ReparseCall t u ret) = live"
| "liveStep f live (DisposeCall g t) = (if g = f then remove1 t live else live)"

definition unitsLive :: "string \<Rightarrow> clang_call list \<Rightarrow> CXTranslationUnit list" where
  "unitsLive f cs = foldl (liveStep f) [] cs"

fun isUnitOf :: "string \<Rightarrow> clang_call \<Rightarrow> bool" where
  "isUnitOf f (ParseCall g a u r) = (g = f \<and> r \<noteq> None)"
| "isUnitOf f (ReparseCall t u ret) = False"
| "isUnitOf f (DisposeCall g t) = False"

fun isDisposeOf :: "string \<Rightarrow> clang_call \<Rightarrow> bool" where
  "isDisposeOf f (ParseCall g a u r) = False"
| "isDisposeOf f (ReparseCall t u ret) = False"
| "isDisposeOf f (DisposeCall g t) = (g = f)"

definition unitCount :: "string \<Rightarrow> clang_call list \<Rightarrow> nat" where
  "unitCount f cs = length (filter (isUnitOf f) cs)"

definition disposeCount :: "string \<Rightarrow> clang_call list \<Rightarrow> nat" where
  "disposeCount f cs = length (filter (isDisposeOf f) cs)"

definition newCalls :: "SourceIndex \<Rightarrow> SourceIndex \<Rightarrow> clang_call list" where
  "newCalls s s' = drop (length (clangCalls s)) (clangCalls s')"

text \<open>
  What holds between the calls made so far and the record of one file: the stored
  unit is the only live unit of the file, no moment in the past saw two, and every
  unit handed out is either disposed or the stored one.
\<close>

definition logInv :: "string \<Rightarrow> clang_call list \<Rightarrow> StoredTranslationUnit option \<Rightarrow> bool" where
  "logInv f cs rec \<longleftrightarrow>
     unitsLive f cs = (case rec of Some st \<Rightarrow> [tu st] | None \<Rightarrow> [])
   \<and> (\<forall>p. prefix p cs \<longrightarrow> length (unitsLive f p) \<le> 1)
   \<and> unitCount f cs = disposeCount f cs + (case rec of Some st \<Rightarrow> 1 | None \<Rightarrow> 0)"

definition cacheInv :: "string \<Rightarrow> SourceIndex \<Rightarrow> bool" where
  "cacheInv f s \<longleftrightarrow>
     sorted_wrt (<) (map fst (translationUnits s))
   \<and> logInv f (clangCalls s) (tu_find f (translationUnits s))"

subsection \<open>Sample surroundings\<close>

text \<open>
  A world in which every file has the arguments \<open>-I.\<close> and the time 100, every parse
  gives unit 7 and every reparse succeeds; the index after a first
  \<open>getTranslationUnit\<close> for \<open>a.cpp\<close> in that world; and the record it then holds.
\<close>

definition sample_world :: world where
  "sample_world =
     \<lparr>compileArgsForTranslationUnit = (\<lambda>f. [''-I.'']), fileReadable = (\<lambda>f. True),
      filePath_lastWriteTime = (\<lambda>f. 100), parseTranslationUnit = (\<lambda>f a u. Some 7),
      reparseTranslationUnit = (\<lambda>t u. 0)\<rparr>"

definition sample_index :: SourceIndex where
  "sample_index = snd (getTranslationUnit sample_world ''a.cpp'' False (newSourceIndex True 0))"

definition sample_stored :: StoredTranslationUnit where
  "sample_stored = \<lparr>compileArgs = [''-I.''], lastWriteTime = 100, tu = 7\<rparr>"

text \<open>
  Variations: the file time is 200 and the reparse fails, with a parse that gives
  unit 8 or that fails too; only the file time has changed; the arguments have
  changed; the compilation database has no arguments for any file; the time of no
  file can be read. \<open>verbose_index\<close> is the sample index at verbosity 2.
\<close>

definition world_reparse_fails :: world where
  "world_reparse_fails =
     sample_world\<lparr>filePath_lastWriteTime := (\<lambda>f. 200), parseTranslationUnit := (\<lambda>f a u. Some 8),
       reparseTranslationUnit := (\<lambda>t u. 1)\<rparr>"

definition world_clang_fails :: world where
  "world_clang_fails =
     sample_world\<lparr>filePath_lastWriteTime := (\<lambda>f. 200), parseTranslationUnit := (\<lambda>f a u. None),
       reparseTranslationUnit := (\<lambda>t u. 1)\<rparr>"

definition world_file_changed :: world where
  "world_file_changed = sample_world\<lparr>filePath_lastWriteTime := (\<lambda>f. 200)\<rparr>"

definition world_args_changed :: world where
  "world_args_changed =
     sample_world\<lparr>compileArgsForTranslationUnit := (\<lambda>f. [''-I.'', ''-O2'']),
       parseTranslationUnit := (\<lambda>f a u. Some 8)\<rparr>"

definition world_unindexable :: world where
  "world_unindexable = sample_world\<lparr>compileArgsForTranslationUnit := (\<lambda>f. [])\<rparr>"

definition world_unreadable :: world where
  "world_unreadable =
     sample_world\<lparr>fileReadable := (\<lambda>f. False), filePath_lastWriteTime := (\<lambda>f. 0)\<rparr>"

definition verbose_index :: SourceIndex where
  "verbose_index = snd (getTranslationUnit sample_world ''a.cpp'' False (newSourceIndex True 2))"

text \<open>
  Two builds of \<open>a.cpp\<close>, the second because the arguments have changed. The file is
  still stored after them.
\<close>

definition sample_builds :: "cache_op list" where
  "sample_builds =
     [GetTranslationUnit sample_world ''a.cpp'' False,
      GetTranslationUnit world_args_changed ''a.cpp'' False]"

section \<open>Properties\<close>

subsection \<open>The map and the full rebuild\<close>

lemma tu_find_store: "tu_find k (tu_store k' v m) = (if k = k' then Some v else tu_find k m)"
  by (induction m) (auto simp: tu_find_def)

lemma tu_find_erase: "tu_find k (tu_erase k' m) = (if k = k' then None else tu_find k m)"
  by (induction m) (auto simp: tu_find_def tu_erase_def)

lemma rebuild_with_record:
  assumes "tu_find filename (translationUnits s) = Some stored"
  shows "rebuildTranslationUnit w filename args lwt s =
     (let a = parseArgs s args; r = parseTranslationUnit w filename a (unsavedFiles s);
          cs = clangCalls s @
                 [DisposeCall filename (tu stored), ParseCall filename a (unsavedFiles s) r]
      in case r of
           Some t \<Rightarrow>
             (TranslationUnit filename t,
              s\<lparr>clangCalls := cs,
                translationUnits :=
                  tu_store filename \<lparr>compileArgs = a, lastWriteTime = lwt, tu = t\<rparr>
                    (tu_erase filename (translationUnits s))\<rparr>)
         | None \<Rightarrow>
             (EmptyTranslationUnit,
              s\<lparr>clangCalls := cs, translationUnits := tu_erase filename (translationUnits s),
                errorLog := errorLog s @ [''Error parsing translation unit '' @ filename]\<rparr>))"
  using assms
  by (simp add: rebuildTranslationUnit_def removeTranslationUnit_def parseArgs_def Let_def
           split: option.splits)

lemma rebuild_without_record:
  assumes "tu_find filename (translationUnits s) = None"
  shows "rebuildTranslationUnit w filename args lwt s =
     (let a = parseArgs s args; r = parseTranslationUnit w filename a (unsavedFiles s);
          cs = clangCalls s @ [ParseCall filename a (unsavedFiles s) r]
      in case r of
           Some t \<Rightarrow>
             (TranslationUnit filename t,
              s\<lparr>clangCalls := cs,
                translationUnits :=
                  tu_store filename \<lparr>compileArgs = a, lastWriteTime = lwt, tu = t\<rparr>
                    (translationUnits s)\<rparr>)
         | None \<Rightarrow>
             (EmptyTranslationUnit,
              s\<lparr>clangCalls := cs,
                errorLog := errorLog s @ [''Error parsing translation unit '' @ filename]\<rparr>))"
  using assms
  by (simp add: rebuildTranslationUnit_def removeTranslationUnit_def parseArgs_def Let_def
           split: option.splits)

lemma sample_index_eq:
  "sample_index =
     \<lparr>verbose = 0, compilationDB_set = True, translationUnits = [(''a.cpp'', sample_stored)],
      unsavedFiles = [], clangCalls = [ParseCall ''a.cpp'' [''-I.''] [] (Some 7)],
      errorLog = []\<rparr>"
  by (simp add: sample_index_def sample_stored_def sample_world_def newSourceIndex_def
        getTranslationUnit_def fetchArgs_def tu_find_def rebuild_without_record parseArgs_def
        Let_def)

text \<open>The facts that evaluate a call on the sample index.\<close>

lemmas sample_eval =
  sample_index_eq sample_stored_def sample_world_def newSourceIndex_def getTranslationUnit_def
  fetchArgs_def tu_find_def tu_erase_def rebuild_with_record rebuild_without_record
  parseArgs_def Let_def

lemma verbose_index_eq:
  "verbose_index =
     \<lparr>verbose = 2, compilationDB_set = True,
      translationUnits =
        [(''a.cpp'', \<lparr>compileArgs = [''-I.'', ''-v''], lastWriteTime = 100, tu = 7\<rparr>)],
      unsavedFiles = [], clangCalls = [ParseCall ''a.cpp'' [''-I.'', ''-v''] [] (Some 7)],
      errorLog = []\<rparr>"
  by (simp add: verbose_index_def sample_eval)

subsection \<open>One call of \<open>getTranslationUnit\<close>\<close>

text \<open>
  C1. The claim is that a failed reparse makes \<open>getTranslationUnit\<close> return the empty
  unit and leave the record and its unit as they were, with no dispose and no parse.
  The code does otherwise: the \<open>else\<close> branch of the reparse only logs, and control
  runs on into the full rebuild. In the sample index, with a changed file time, a
  failing reparse and a parse that gives unit 8, the call returns unit 8, having
  disposed unit 7 and parsed, and the record of the file holds unit 8.
\<close>

theorem failed_reparse_counterexample:
  "tu_find ''a.cpp'' (translationUnits sample_index) = Some sample_stored
   \<and> fetchArgs world_reparse_fails ''a.cpp'' sample_index = Some (compileArgs sample_stored)
   \<and> reparseTranslationUnit world_reparse_fails (tu sample_stored) [] \<noteq> 0
   \<and> getTranslationUnit world_reparse_fails ''a.cpp'' False sample_index =
       (TranslationUnit ''a.cpp'' 8,
        sample_index\<lparr>
          clangCalls := [ParseCall ''a.cpp'' [''-I.''] [] (Some 7), ReparseCall 7 [] 1,
                         DisposeCall ''a.cpp'' 7, ParseCall ''a.cpp'' [''-I.''] [] (Some 8)],
          errorLog := [''Error re-parsing translation unit a.cpp''],
          translationUnits :=
            [(''a.cpp'', \<lparr>compileArgs = [''-I.''], lastWriteTime = 200, tu = 8\<rparr>)]\<rparr>)
   \<and> TranslationUnit ''a.cpp'' 8 \<noteq> EmptyTranslationUnit
   \<and> \<lparr>compileArgs = [''-I.''], lastWriteTime = 200, tu = 8\<rparr> \<noteq> sample_stored"
  by (simp add: sample_eval world_reparse_fails_def)

text \<open>
  C1, as the code has it. When the stored arguments equal the fetched ones, a reparse
  is due (forced, or the file time differs) and libclang's reparse fails,
  \<open>getTranslationUnit\<close> logs the reparse error, disposes the stored unit, erases the
  record and parses from scratch, in this order. If that parse succeeds, a record with
  the new unit and the new file time is stored and the new unit returned; if it fails,
  a second error is logged, the empty unit is returned and the file has no record.
\<close>

theorem failed_reparse_rebuilds:
  assumes "tu_find filename (translationUnits s) = Some stored"
    and "fetchArgs w filename s = Some (compileArgs stored)"
    and "alwaysReparse \<or> filePath_lastWriteTime w filename \<noteq> lastWriteTime stored"
    and "reparseTranslationUnit w (tu stored) (unsavedFiles s) \<noteq> 0"
    and "getTranslationUnit w filename alwaysReparse s = (res, s')"
  shows "(let a = parseArgs s (compileArgs stored);
              r = parseTranslationUnit w filename a (unsavedFiles s)
          in clangCalls s' = clangCalls s @
               [ReparseCall (tu stored) (unsavedFiles s)
                  (reparseTranslationUnit w (tu stored) (unsavedFiles s)),
                DisposeCall filename (tu stored),
                ParseCall filename a (unsavedFiles s) r]
           \<and> errorLog s' = errorLog s @ [''Error re-parsing translation unit '' @ filename] @
               (if r = None then [''Error parsing translation unit '' @ filename] else [])
           \<and> tu_find filename (translationUnits s') =
               map_option (\<lambda>t. \<lparr>compileArgs = a,
                                 lastWriteTime = filePath_lastWriteTime w filename, tu = t\<rparr>) r
           \<and> res = (case r of None \<Rightarrow> EmptyTranslationUnit
                     | Some t \<Rightarrow> TranslationUnit filename t))"
  using assms
  by (auto simp: getTranslationUnit_def Let_def rebuild_with_record parseArgs_def
        tu_find_store tu_find_erase split: option.splits if_splits)

theorem failed_reparse_rebuilds_witness:
  "tu_find ''a.cpp'' (translationUnits sample_index) = Some sample_stored
   \<and> fetchArgs world_clang_fails ''a.cpp'' sample_index = Some (compileArgs sample_stored)
   \<and> reparseTranslationUnit world_clang_fails (tu sample_stored) (unsavedFiles sample_index) \<noteq> 0
   \<and> clangCalls (snd (getTranslationUnit world_clang_fails ''a.cpp'' True sample_index)) =
       [ParseCall ''a.cpp'' [''-I.''] [] (Some 7), ReparseCall 7 [] 1,
        DisposeCall ''a.cpp'' 7, ParseCall ''a.cpp'' [''-I.''] [] None]
   \<and> errorLog (snd (getTranslationUnit world_clang_fails ''a.cpp'' True sample_index)) =
       [''Error re-parsing translation unit a.cpp'', ''Error parsing translation unit a.cpp'']
   \<and> tu_find ''a.cpp''
       (translationUnits (snd (getTranslationUnit world_clang_fails ''a.cpp'' True sample_index))) =
       None
   \<and> fst (getTranslationUnit world_clang_fails ''a.cpp'' True sample_index) =
       EmptyTranslationUnit"
  using failed_reparse_rebuilds [of "''a.cpp''" sample_index sample_stored world_clang_fails True
      "fst (getTranslationUnit world_clang_fails ''a.cpp'' True sample_index)"
      "snd (getTranslationUnit world_clang_fails ''a.cpp'' True sample_index)"]
  by (simp add: sample_eval world_clang_fails_def)

text \<open>
  C2. The claim is that a file whose modification time cannot be read makes
  \<open>getTranslationUnit\<close> report an error, return the empty unit and create no record.
  The code has no such branch: the value of \<open>lastWriteTime()\<close> is stored in a
  \<open>std::time_t\<close> and used like any other. With no file readable and no record yet,
  the call parses, returns unit 7 and stores a record, and logs nothing.
\<close>

theorem unreadable_file_counterexample:
  "\<not> fileReadable world_unreadable ''a.cpp''
   \<and> getTranslationUnit world_unreadable ''a.cpp'' False (newSourceIndex True 0) =
       (TranslationUnit ''a.cpp'' 7,
        (newSourceIndex True 0)\<lparr>
          clangCalls := [ParseCall ''a.cpp'' [''-I.''] [] (Some 7)],
          translationUnits :=
            [(''a.cpp'', \<lparr>compileArgs = [''-I.''], lastWriteTime = 0, tu = 7\<rparr>)]\<rparr>)
   \<and> TranslationUnit ''a.cpp'' 7 \<noteq> EmptyTranslationUnit
   \<and> errorLog (newSourceIndex True 0) = []"
  by (simp add: sample_eval world_unreadable_def)

text \<open>
  C2, as the code has it. \<open>getTranslationUnit\<close> does not ask whether the modification
  time could be read. For a file without a record whose arguments were fetched, it
  calls parse also when the time cannot be read; if the parse succeeds, a record with
  the value \<open>lastWriteTime()\<close> gave is stored and the unit returned, and nothing is
  logged; only a failing parse is logged.
\<close>

theorem unreadable_file_is_parsed:
  assumes "\<not> fileReadable w filename"
    and "fetchArgs w filename s = Some args"
    and "tu_find filename (translationUnits s) = None"
    and "getTranslationUnit w filename alwaysReparse s = (res, s')"
  shows "(let a = parseArgs s args;
              r = parseTranslationUnit w filename a (unsavedFiles s)
          in clangCalls s' = clangCalls s @ [ParseCall filename a (unsavedFiles s) r]
           \<and> errorLog s' = errorLog s @
               (if r = None then [''Error parsing translation unit '' @ filename] else [])
           \<and> tu_find filename (translationUnits s') =
               map_option (\<lambda>t. \<lparr>compileArgs = a,
                                 lastWriteTime = filePath_lastWriteTime w filename, tu = t\<rparr>) r
           \<and> res = (case r of None \<Rightarrow> EmptyTranslationUnit
                     | Some t \<Rightarrow> TranslationUnit filename t))"
  using assms
  by (auto simp: getTranslationUnit_def Let_def rebuild_without_record parseArgs_def
        tu_find_store split: option.splits if_splits)

theorem unreadable_file_is_parsed_witness:
  "\<not> fileReadable world_unreadable ''b.cpp''
   \<and> fetchArgs world_unreadable ''b.cpp'' sample_index = Some [''-I.'']
   \<and> tu_find ''b.cpp'' (translationUnits sample_index) = None
   \<and> clangCalls (snd (getTranslationUnit world_unreadable ''b.cpp'' False sample_index)) =
       [ParseCall ''a.cpp'' [''-I.''] [] (Some 7), ParseCall ''b.cpp'' [''-I.''] [] (Some 7)]
   \<and> errorLog (snd (getTranslationUnit world_unreadable ''b.cpp'' False sample_index)) = []
   \<and> tu_find ''b.cpp''
       (translationUnits (snd (getTranslationUnit world_unreadable ''b.cpp'' False sample_index))) =
       Some \<lparr>compileArgs = [''-I.''], lastWriteTime = 0, tu = 7\<rparr>
   \<and> fst (getTranslationUnit world_unreadable ''b.cpp'' False sample_index) =
       TranslationUnit ''b.cpp'' 7"
  using unreadable_file_is_parsed [of world_unreadable "''b.cpp''" sample_index "[''-I.'']" False
      "fst (getTranslationUnit world_unreadable ''b.cpp'' False sample_index)"
      "snd (getTranslationUnit world_unreadable ''b.cpp'' False sample_index)"]
  by (simp add: sample_eval world_unreadable_def)

text \<open>
  C3. At a verbosity of 2 or more, \<open>-v\<close> is appended to the arguments after they were
  compared with the stored ones, and the extended list is what the record keeps. So
  when the file has no record, or a record that an earlier call with the same fetched
  arguments has stored (its \<open>compileArgs\<close> are the fetched arguments followed by
  \<open>-v\<close>), the call, whatever the file time and \<open>alwaysReparse\<close>, is neither a hit nor
  a reparse: it disposes the stored unit, if there is one, and parses, and the record
  it stores again holds the fetched arguments followed by \<open>-v\<close>, so that the next
  call finds the same situation.
\<close>

theorem verbose_arg_defeats_cache:
  assumes "verbose s \<ge> 2"
    and "fetchArgs w filename s = Some args"
    and "case tu_find filename (translationUnits s) of
           None \<Rightarrow> True | Some stored \<Rightarrow> compileArgs stored = args @ [''-v'']"
    and "getTranslationUnit w filename alwaysReparse s = (res, s')"
  shows "(let r = parseTranslationUnit w filename (args @ [''-v'']) (unsavedFiles s)
          in clangCalls s' = clangCalls s @
               (case tu_find filename (translationUnits s) of
                  None \<Rightarrow> [] | Some stored \<Rightarrow> [DisposeCall filename (tu stored)]) @
               [ParseCall filename (args @ [''-v'']) (unsavedFiles s) r]
           \<and> tu_find filename (translationUnits s') =
               map_option (\<lambda>t. \<lparr>compileArgs = args @ [''-v''],
                                 lastWriteTime = filePath_lastWriteTime w filename, tu = t\<rparr>) r
           \<and> res = (case r of None \<Rightarrow> EmptyTranslationUnit
                     | Some t \<Rightarrow> TranslationUnit filename t))"
proof (cases "tu_find filename (translationUnits s)")
  case None
  with assms show ?thesis
    by (auto simp: getTranslationUnit_def Let_def rebuild_without_record parseArgs_def
          tu_find_store split: option.splits)
next
  case (Some stored)
  with assms have "args \<noteq> compileArgs stored" by simp
  with Some assms show ?thesis
    by (auto simp: getTranslationUnit_def Let_def rebuild_with_record parseArgs_def
          tu_find_store tu_find_erase split: option.splits)
qed

theorem verbose_arg_defeats_cache_witness:
  "verbose verbose_index \<ge> 2
   \<and> fetchArgs sample_world ''a.cpp'' verbose_index = Some [''-I.'']
   \<and> tu_find ''a.cpp'' (translationUnits verbose_index) =
       Some \<lparr>compileArgs = [''-I.''] @ [''-v''], lastWriteTime = 100, tu = 7\<rparr>
   \<and> filePath_lastWriteTime sample_world ''a.cpp'' = 100
   \<and> clangCalls (snd (getTranslationUnit sample_world ''a.cpp'' False verbose_index)) =
       [ParseCall ''a.cpp'' [''-I.'', ''-v''] [] (Some 7), DisposeCall ''a.cpp'' 7,
        ParseCall ''a.cpp'' [''-I.'', ''-v''] [] (Some 7)]
   \<and> tu_find ''a.cpp''
       (translationUnits (snd (getTranslationUnit sample_world ''a.cpp'' False verbose_index))) =
       Some \<lparr>compileArgs = [''-I.'', ''-v''], lastWriteTime = 100, tu = 7\<rparr>"
  using verbose_arg_defeats_cache [of verbose_index sample_world "''a.cpp''" "[''-I.'']" False
      "fst (getTranslationUnit sample_world ''a.cpp'' False verbose_index)"
      "snd (getTranslationUnit sample_world ''a.cpp'' False verbose_index)"]
  by (simp add: verbose_index_eq sample_eval)

text \<open>
  C4. When the file has a record, \<open>alwaysReparse\<close> is false, the fetched arguments
  equal the stored ones and the file time equals the stored one, \<open>getTranslationUnit\<close>
  returns the stored unit and leaves the index as it was: nothing is added to the
  calls to libclang. A second such call therefore does the same, and the two together
  add no parse and no reparse call.
\<close>

theorem hit_returns_stored_unit:
  assumes "tu_find filename (translationUnits s) = Some stored"
    and "fetchArgs w1 filename s = Some (compileArgs stored)"
    and "filePath_lastWriteTime w1 filename = lastWriteTime stored"
    and "fetchArgs w2 filename s = Some (compileArgs stored)"
    and "filePath_lastWriteTime w2 filename = lastWriteTime stored"
  shows "getTranslationUnit w1 filename False s = (TranslationUnit filename (tu stored), s)
       \<and> getTranslationUnit w2 filename False (snd (getTranslationUnit w1 filename False s)) =
           (TranslationUnit filename (tu stored), s)
       \<and> newCalls s (snd (getTranslationUnit w2 filename False
                              (snd (getTranslationUnit w1 filename False s)))) = []"
  using assms by (simp add: getTranslationUnit_def newCalls_def)

theorem hit_returns_stored_unit_witness:
  "tu_find ''a.cpp'' (translationUnits sample_index) = Some sample_stored
   \<and> fetchArgs sample_world ''a.cpp'' sample_index = Some (compileArgs sample_stored)
   \<and> filePath_lastWriteTime sample_world ''a.cpp'' = lastWriteTime sample_stored
   \<and> getTranslationUnit sample_world ''a.cpp'' False sample_index =
       (TranslationUnit ''a.cpp'' 7, sample_index)
   \<and> getTranslationUnit sample_world ''a.cpp'' False
       (snd (getTranslationUnit sample_world ''a.cpp'' False sample_index)) =
       (TranslationUnit ''a.cpp'' 7, sample_index)"
  using hit_returns_stored_unit [of "''a.cpp''" sample_index sample_stored sample_world
      sample_world]
  by (simp add: sample_eval)

text \<open>
  C5. When the file has a record and the fetched arguments differ from the stored
  ones, \<open>getTranslationUnit\<close> makes no reparse call: it disposes the stored unit, erases
  the record and then parses with the fetched arguments, whatever the file time and
  \<open>alwaysReparse\<close> are. Afterwards the file has the record of the new parse, or none
  if the parse failed. (Fetched arguments are those of a call that got past the check
  for an empty answer of the compilation database.)
\<close>

theorem changed_args_rebuild:
  assumes "tu_find filename (translationUnits s) = Some stored"
    and "fetchArgs w filename s = Some args"
    and "args \<noteq> compileArgs stored"
    and "getTranslationUnit w filename alwaysReparse s = (res, s')"
  shows "(let a = parseArgs s args;
              r = parseTranslationUnit w filename a (unsavedFiles s)
          in clangCalls s' = clangCalls s @
               [DisposeCall filename (tu stored), ParseCall filename a (unsavedFiles s) r]
           \<and> tu_find filename (translationUnits s') =
               map_option (\<lambda>t. \<lparr>compileArgs = a,
                                 lastWriteTime = filePath_lastWriteTime w filename, tu = t\<rparr>) r
           \<and> res = (case r of None \<Rightarrow> EmptyTranslationUnit
                     | Some t \<Rightarrow> TranslationUnit filename t))"
  using assms
  by (auto simp: getTranslationUnit_def Let_def rebuild_with_record parseArgs_def
        tu_find_store tu_find_erase split: option.splits if_splits)

theorem changed_args_rebuild_witness:
  "tu_find ''a.cpp'' (translationUnits sample_index) = Some sample_stored
   \<and> fetchArgs world_args_changed ''a.cpp'' sample_index = Some [''-I.'', ''-O2'']
   \<and> [''-I.'', ''-O2''] \<noteq> compileArgs sample_stored
   \<and> filePath_lastWriteTime world_args_changed ''a.cpp'' = lastWriteTime sample_stored
   \<and> clangCalls (snd (getTranslationUnit world_args_changed ''a.cpp'' False sample_index)) =
       [ParseCall ''a.cpp'' [''-I.''] [] (Some 7), DisposeCall ''a.cpp'' 7,
        ParseCall ''a.cpp'' [''-I.'', ''-O2''] [] (Some 8)]
   \<and> tu_find ''a.cpp''
       (translationUnits (snd (getTranslationUnit world_args_changed ''a.cpp'' False sample_index))) =
       Some \<lparr>compileArgs = [''-I.'', ''-O2''], lastWriteTime = 100, tu = 8\<rparr>
   \<and> fst (getTranslationUnit world_args_changed ''a.cpp'' False sample_index) =
       TranslationUnit ''a.cpp'' 8"
  using changed_args_rebuild [of "''a.cpp''" sample_index sample_stored world_args_changed
      "[''-I.'', ''-O2'']" False
      "fst (getTranslationUnit world_args_changed ''a.cpp'' False sample_index)"
      "snd (getTranslationUnit world_args_changed ''a.cpp'' False sample_index)"]
  by (simp add: sample_eval world_args_changed_def)

text \<open>
  C6. The claim is that equal arguments and a changed file time give exactly one
  reparse call and no dispose and no parse call. That fails when the reparse fails:
  in the sample index, with the file time changed and libclang failing, the call
  makes one reparse call, one dispose call and one parse call.
\<close>

theorem changed_time_counterexample:
  "tu_find ''a.cpp'' (translationUnits sample_index) = Some sample_stored
   \<and> fetchArgs world_clang_fails ''a.cpp'' sample_index = Some (compileArgs sample_stored)
   \<and> filePath_lastWriteTime world_clang_fails ''a.cpp'' \<noteq> lastWriteTime sample_stored
   \<and> newCalls sample_index
       (snd (getTranslationUnit world_clang_fails ''a.cpp'' False sample_index)) =
       [ReparseCall 7 [] 1, DisposeCall ''a.cpp'' 7, ParseCall ''a.cpp'' [''-I.''] [] None]
   \<and> disposeCount ''a.cpp'' (newCalls sample_index
       (snd (getTranslationUnit world_clang_fails ''a.cpp'' False sample_index))) = 1"
  by (simp add: sample_eval world_clang_fails_def newCalls_def disposeCount_def)

text \<open>
  C6, as the code has it. When the file has a record, the fetched arguments equal the
  stored ones and the file time differs from the stored one, \<open>getTranslationUnit\<close>
  makes exactly one reparse call, first. If the reparse succeeds, no other call to
  libclang follows, the record keeps its arguments and unit and has the new file
  time, and the stored unit is returned. If it fails, one dispose and one parse call
  follow.
\<close>

theorem changed_time_reparse:
  assumes "tu_find filename (translationUnits s) = Some stored"
    and "fetchArgs w filename s = Some (compileArgs stored)"
    and "filePath_lastWriteTime w filename \<noteq> lastWriteTime stored"
    and "getTranslationUnit w filename alwaysReparse s = (res, s')"
  shows "(let ret = reparseTranslationUnit w (tu stored) (unsavedFiles s);
              a = parseArgs s (compileArgs stored)
          in clangCalls s' = clangCalls s @ [ReparseCall (tu stored) (unsavedFiles s) ret] @
               (if ret = 0 then []
                else [DisposeCall filename (tu stored),
                      ParseCall filename a (unsavedFiles s)
                        (parseTranslationUnit w filename a (unsavedFiles s))])
           \<and> (ret = 0 \<longrightarrow>
                 tu_find filename (translationUnits s') =
                   Some (stored\<lparr>lastWriteTime := filePath_lastWriteTime w filename\<rparr>)
               \<and> res = TranslationUnit filename (tu stored)
               \<and> errorLog s' = errorLog s))"
  using assms
  by (auto simp: getTranslationUnit_def Let_def rebuild_with_record parseArgs_def
        tu_find_store tu_find_erase split: option.splits if_splits)

theorem changed_time_reparse_witness:
  "tu_find ''a.cpp'' (translationUnits sample_index) = Some sample_stored
   \<and> fetchArgs world_file_changed ''a.cpp'' sample_index = Some (compileArgs sample_stored)
   \<and> filePath_lastWriteTime world_file_changed ''a.cpp'' \<noteq> lastWriteTime sample_stored
   \<and> reparseTranslationUnit world_file_changed (tu sample_stored) (unsavedFiles sample_index) = 0
   \<and> clangCalls (snd (getTranslationUnit world_file_changed ''a.cpp'' False sample_index)) =
       [ParseCall ''a.cpp'' [''-I.''] [] (Some 7), ReparseCall 7 [] 0]
   \<and> tu_find ''a.cpp''
       (translationUnits (snd (getTranslationUnit world_file_changed ''a.cpp'' False sample_index))) =
       Some \<lparr>compileArgs = [''-I.''], lastWriteTime = 200, tu = 7\<rparr>
   \<and> fst (getTranslationUnit world_file_changed ''a.cpp'' False sample_index) =
       TranslationUnit ''a.cpp'' 7"
  using changed_time_reparse [of "''a.cpp''" sample_index sample_stored world_file_changed False
      "fst (getTranslationUnit world_file_changed ''a.cpp'' False sample_index)"
      "snd (getTranslationUnit world_file_changed ''a.cpp'' False sample_index)"]
  by (simp add: sample_eval world_file_changed_def)

text \<open>
  C8. When a call of \<open>getTranslationUnit\<close> gets as far as the parse and the parse fails
  (libclang returns \<open>NULL\<close>), the call logs the parse error as its last message,
  returns the empty unit, and the file has no record afterwards; a record the file
  had before was disposed in this call, and the parse is the call's last call to
  libclang.
\<close>

theorem failed_parse_leaves_no_record:
  assumes "getTranslationUnit w filename alwaysReparse s = (res, s')"
    and "ParseCall filename a u None \<in> set (newCalls s s')"
  shows "res = EmptyTranslationUnit
       \<and> tu_find filename (translationUnits s') = None
       \<and> length (errorLog s') > length (errorLog s)
       \<and> last (errorLog s') = ''Error parsing translation unit '' @ filename
       \<and> last (clangCalls s') = ParseCall filename a u None
       \<and> (tu_find filename (translationUnits s) = Some stored \<longrightarrow>
            DisposeCall filename (tu stored) \<in> set (newCalls s s'))"
proof (cases "tu_find filename (translationUnits s)")
  case None
  with assms show ?thesis
    by (auto simp: getTranslationUnit_def newCalls_def Let_def rebuild_without_record
          tu_find_store split: option.splits if_splits)
next
  case (Some st)
  with assms show ?thesis
    by (auto simp: getTranslationUnit_def newCalls_def Let_def rebuild_with_record
          tu_find_store tu_find_erase split: option.splits if_splits)
qed

theorem failed_parse_leaves_no_record_witness:
  "ParseCall ''a.cpp'' [''-I.''] [] None \<in>
     set (newCalls sample_index
            (snd (getTranslationUnit world_clang_fails ''a.cpp'' False sample_index)))
   \<and> tu_find ''a.cpp'' (translationUnits sample_index) = Some sample_stored
   \<and> fst (getTranslationUnit world_clang_fails ''a.cpp'' False sample_index) =
       EmptyTranslationUnit
   \<and> tu_find ''a.cpp''
       (translationUnits (snd (getTranslationUnit world_clang_fails ''a.cpp'' False sample_index))) =
       None
   \<and> last (errorLog (snd (getTranslationUnit world_clang_fails ''a.cpp'' False sample_index))) =
       ''Error parsing translation unit a.cpp''
   \<and> DisposeCall ''a.cpp'' (tu sample_stored) \<in>
       set (newCalls sample_index
              (snd (getTranslationUnit world_clang_fails ''a.cpp'' False sample_index)))"
  using failed_parse_leaves_no_record [of world_clang_fails "''a.cpp''" False sample_index
      "fst (getTranslationUnit world_clang_fails ''a.cpp'' False sample_index)"
      "snd (getTranslationUnit world_clang_fails ''a.cpp'' False sample_index)"
      "[''-I.'']" "[]" sample_stored]
  by (simp add: sample_eval world_clang_fails_def newCalls_def)

text \<open>
  C9. When the compilation database holds a function and that function answers with an
  empty argument list, \<open>getTranslationUnit\<close> returns the empty unit at once: the index,
  and with it every stored record, the list of libclang calls and the error log, is
  exactly what it was, whatever \<open>alwaysReparse\<close>, the file's time and the stored
  record are.
\<close>

theorem unindexable_short_circuit:
  assumes "compilationDB_set s" and "compileArgsForTranslationUnit w filename = []"
  shows "getTranslationUnit w filename alwaysReparse s = (EmptyTranslationUnit, s)"
  using assms by (simp add: getTranslationUnit_def fetchArgs_def)

theorem unindexable_short_circuit_witness:
  "compilationDB_set sample_index
   \<and> compileArgsForTranslationUnit world_unindexable ''a.cpp'' = []
   \<and> tu_find ''a.cpp'' (translationUnits sample_index) = Some sample_stored
   \<and> getTranslationUnit world_unindexable ''a.cpp'' True sample_index =
       (EmptyTranslationUnit, sample_index)"
  using unindexable_short_circuit [of sample_index world_unindexable "''a.cpp''" True]
  by (simp add: sample_index_eq world_unindexable_def sample_world_def tu_find_def)

text \<open>
  C10. When the file has a record, the fetched arguments equal the stored ones and the
  file time equals the stored one, a call with \<open>alwaysReparse\<close> true is no hit: the
  first thing it adds to the calls to libclang is a reparse of the stored unit. If
  that reparse succeeds it is the only call, and the stored unit is returned with
  the record as it was.
\<close>

theorem forced_reparse:
  assumes "tu_find filename (translationUnits s) = Some stored"
    and "fetchArgs w filename s = Some (compileArgs stored)"
    and "filePath_lastWriteTime w filename = lastWriteTime stored"
    and "getTranslationUnit w filename True s = (res, s')"
  shows "take (Suc (length (clangCalls s))) (clangCalls s') =
           clangCalls s @ [ReparseCall (tu stored) (unsavedFiles s)
                             (reparseTranslationUnit w (tu stored) (unsavedFiles s))]
       \<and> (reparseTranslationUnit w (tu stored) (unsavedFiles s) = 0 \<longrightarrow>
            clangCalls s' = clangCalls s @ [ReparseCall (tu stored) (unsavedFiles s) 0]
          \<and> res = TranslationUnit filename (tu stored)
          \<and> tu_find filename (translationUnits s') = Some stored)"
  using assms
  by (auto simp: getTranslationUnit_def Let_def rebuild_with_record parseArgs_def
        tu_find_store tu_find_erase split: option.splits if_splits)

theorem forced_reparse_witness:
  "tu_find ''a.cpp'' (translationUnits sample_index) = Some sample_stored
   \<and> fetchArgs sample_world ''a.cpp'' sample_index = Some (compileArgs sample_stored)
   \<and> filePath_lastWriteTime sample_world ''a.cpp'' = lastWriteTime sample_stored
   \<and> reparseTranslationUnit sample_world (tu sample_stored) (unsavedFiles sample_index) = 0
   \<and> clangCalls (snd (getTranslationUnit sample_world ''a.cpp'' True sample_index)) =
       [ParseCall ''a.cpp'' [''-I.''] [] (Some 7), ReparseCall 7 [] 0]
   \<and> fst (getTranslationUnit sample_world ''a.cpp'' True sample_index) =
       TranslationUnit ''a.cpp'' 7"
  using forced_reparse [of "''a.cpp''" sample_index sample_stored sample_world
      "fst (getTranslationUnit sample_world ''a.cpp'' True sample_index)"
      "snd (getTranslationUnit sample_world ''a.cpp'' True sample_index)"]
  by (simp add: sample_eval)

subsection \<open>Every reachable state\<close>

lemma unitsLive_snoc: "unitsLive f (cs @ [c]) = liveStep f (unitsLive f cs) c"
  by (simp add: unitsLive_def)

lemma unitsLive_append: "unitsLive f (cs @ ds) = foldl (liveStep f) (unitsLive f cs) ds"
  by (simp add: unitsLive_def)

lemma unitCount_append: "unitCount f (cs @ ds) = unitCount f cs + unitCount f ds"
  by (simp add: unitCount_def)

lemma disposeCount_append: "disposeCount f (cs @ ds) = disposeCount f cs + disposeCount f ds"
  by (simp add: disposeCount_def)

lemma prefix_snoc_cases: "prefix p (cs @ [c]) \<longleftrightarrow> prefix p cs \<or> p = cs @ [c]"
  by (metis prefix_snoc)

text \<open>How one more call to libclang carries \<open>logInv\<close> along.\<close>

lemma logInv_reparse: "logInv f cs rec \<Longrightarrow> logInv f (cs @ [ReparseCall t u r]) rec"
  by (auto simp: logInv_def unitsLive_snoc prefix_snoc_cases unitCount_def disposeCount_def
           split: option.splits)

lemma logInv_dispose: "logInv f cs (Some st) \<Longrightarrow> logInv f (cs @ [DisposeCall f (tu st)]) None"
  by (auto simp: logInv_def unitsLive_snoc prefix_snoc_cases unitCount_def disposeCount_def)

lemma logInv_dispose_other:
  "g \<noteq> f \<Longrightarrow> logInv f cs rec \<Longrightarrow> logInv f (cs @ [DisposeCall g t]) rec"
  by (auto simp: logInv_def unitsLive_snoc prefix_snoc_cases unitCount_def disposeCount_def
           split: option.splits)

lemma logInv_parse:
  "logInv f cs None \<Longrightarrow> tu st = t \<Longrightarrow> logInv f (cs @ [ParseCall f a u (Some t)]) (Some st)"
  by (auto simp: logInv_def unitsLive_snoc prefix_snoc_cases unitCount_def disposeCount_def)

lemma logInv_parse_failed: "logInv f cs rec \<Longrightarrow> logInv f (cs @ [ParseCall g a u None]) rec"
  by (auto simp: logInv_def unitsLive_snoc prefix_snoc_cases unitCount_def disposeCount_def
           split: option.splits)

lemma logInv_parse_other:
  "g \<noteq> f \<Longrightarrow> logInv f cs rec \<Longrightarrow> logInv f (cs @ [ParseCall g a u r]) rec"
  by (auto simp: logInv_def unitsLive_snoc prefix_snoc_cases unitCount_def disposeCount_def
           split: option.splits)

lemma logInv_touch:
  "logInv f cs (Some st) \<Longrightarrow> logInv f cs (Some (st\<lparr>lastWriteTime := lwt\<rparr>))"
  by (simp add: logInv_def)

text \<open>The keys of the map stay in ascending order, so no key occurs twice.\<close>

lemma keys_tu_store: "set (map fst (tu_store k v m)) = insert k (set (map fst m))"
  by (induction m) auto

lemma sorted_tu_store:
  "sorted_wrt (<) (map fst m) \<Longrightarrow> sorted_wrt (<) (map fst (tu_store k v m))"
proof (induction m)
  case Nil
  then show ?case by simp
next
  case (Cons e m)
  have "fst e < x" if "fst e \<noteq> k" "\<not> k < fst e" "x \<in> fst ` set (tu_store k v m)" for x
    using that Cons.prems keys_tu_store [of k v m] by auto
  with Cons show ?case by (auto simp: image_iff)
qed

lemma sorted_tu_erase:
  "sorted_wrt (<) (map fst m) \<Longrightarrow> sorted_wrt (<) (map fst (tu_erase k m))"
  by (induction m) (auto simp: tu_erase_def)

lemma sorted_keys_distinct:
  "sorted_wrt (<) (map fst m) \<Longrightarrow> distinct (map fst (m :: (string \<times> 'a) list))"
  by (simp add: strict_sorted_iff)

text \<open>Each operation keeps \<open>cacheInv\<close>, for the file it works on and for every other.\<close>

lemma cacheInv_remove: "cacheInv f s \<Longrightarrow> cacheInv f (removeTranslationUnit g s)"
  by (cases "g = f")
     (auto simp: cacheInv_def removeTranslationUnit_def tu_find_erase sorted_tu_erase
        logInv_dispose logInv_dispose_other split: option.splits)

lemma remove_find: "tu_find g (translationUnits (removeTranslationUnit g s)) = None"
  by (auto simp: removeTranslationUnit_def tu_find_erase split: option.splits)

lemma cacheInv_rebuild:
  assumes "cacheInv f s"
  shows "cacheInv f (snd (rebuildTranslationUnit w g args lwt s))"
proof -
  let ?s1 = "removeTranslationUnit g s"
  have 1: "cacheInv f ?s1" using assms by (rule cacheInv_remove)
  have 2: "tu_find g (translationUnits ?s1) = None" by (rule remove_find)
  show ?thesis
  proof (cases "g = f")
    case True
    with 1 2 show ?thesis
      by (auto simp: rebuildTranslationUnit_def Let_def cacheInv_def tu_find_store
            sorted_tu_store logInv_parse logInv_parse_failed split: option.splits)
  next
    case False
    with 1 show ?thesis
      by (auto simp: rebuildTranslationUnit_def Let_def cacheInv_def tu_find_store
            sorted_tu_store logInv_parse_other split: option.splits)
  qed
qed

lemma cacheInv_errorLog: "cacheInv f (s\<lparr>errorLog := e\<rparr>) = cacheInv f s"
  by (simp add: cacheInv_def)

lemma cacheInv_reparsed:
  assumes "cacheInv f s"
  shows "cacheInv f (s\<lparr>clangCalls := clangCalls s @ [ReparseCall t u r]\<rparr>)"
  using assms by (simp add: cacheInv_def logInv_reparse)

lemma cacheInv_reparsed_ok:
  assumes "cacheInv f s" and "tu_find g (translationUnits s) = Some stored"
  shows "cacheInv f
           (s\<lparr>clangCalls := clangCalls s @ [ReparseCall t u r],
              translationUnits :=
                tu_store g (stored\<lparr>lastWriteTime := lwt\<rparr>) (translationUnits s)\<rparr>)"
  using assms
  by (auto simp: cacheInv_def tu_find_store sorted_tu_store logInv_touch logInv_reparse)

lemma cacheInv_get:
  assumes "cacheInv f s"
  shows "cacheInv f (snd (getTranslationUnit w g b s))"
  using assms
  by (auto simp: getTranslationUnit_def Let_def cacheInv_rebuild cacheInv_errorLog
        cacheInv_reparsed cacheInv_reparsed_ok split: option.splits)

text \<open>
  \<open>removeAllTranslationUnits\<close> disposes the unit of every record, each key once: for
  one file that is at most one dispose, of the stored unit.
\<close>

lemma dispose_all_live:
  "distinct (map fst m) \<Longrightarrow>
   foldl (liveStep f) live (map (\<lambda>e. DisposeCall (fst e) (tu (snd e))) m) =
     (case map_of m f of Some st \<Rightarrow> remove1 (tu st) live | None \<Rightarrow> live)"
proof (induction m arbitrary: live)
  case Nil
  then show ?case by simp
next
  case (Cons e m)
  then show ?case
    by (cases e) (auto simp: map_of_eq_None_iff image_iff split: option.splits)
qed

lemma dispose_only_shrinks:
  "length (foldl (liveStep f) live (map (\<lambda>e. DisposeCall (fst e) (tu (snd e))) m))
     \<le> length live"
proof (induction m arbitrary: live)
  case Nil
  then show ?case by simp
next
  case (Cons e m)
  have "length (remove1 x live) \<le> length live" for x
    by (simp add: length_remove1)
  with Cons [of "liveStep f live (DisposeCall (fst e) (tu (snd e)))"] show ?case
    by (auto intro: order_trans)
qed

lemma dispose_all_count:
  "distinct (map fst m) \<Longrightarrow>
   disposeCount f (map (\<lambda>e. DisposeCall (fst e) (tu (snd e))) m) =
     (case map_of m f of Some st \<Rightarrow> 1 | None \<Rightarrow> 0)"
proof (induction m)
  case Nil
  then show ?case by (simp add: disposeCount_def)
next
  case (Cons e m)
  then show ?case
    by (cases e) (auto simp: disposeCount_def map_of_eq_None_iff image_iff split: option.splits)
qed

lemma no_units_in_disposes:
  "unitCount f (map (\<lambda>e. DisposeCall (fst e) (tu (snd e))) m) = 0"
  by (induction m) (auto simp: unitCount_def)

lemma cacheInv_removeAll:
  assumes "cacheInv f s"
  shows "cacheInv f (removeAllTranslationUnits s)"
proof -
  let ?m = "translationUnits s"
  let ?ds = "map (\<lambda>e. DisposeCall (fst e) (tu (snd e))) ?m"
  from assms have d: "distinct (map fst ?m)"
    and inv: "logInv f (clangCalls s) (tu_find f ?m)"
    by (simp_all add: cacheInv_def sorted_keys_distinct)
  have live: "unitsLive f (clangCalls s @ ?ds) = []"
    using inv d by (auto simp: unitsLive_append dispose_all_live logInv_def tu_find_def
        split: option.splits)
  have pre: "length (unitsLive f p) \<le> 1" if "prefix p (clangCalls s @ ?ds)" for p
  proof -
    from that consider "prefix p (clangCalls s)"
      | us where "p = clangCalls s @ us" "prefix us ?ds"
      by (auto simp: prefix_append)
    then show ?thesis
    proof cases
      case 1
      with inv show ?thesis by (simp add: logInv_def)
    next
      case 2
      then obtain n where "us = map (\<lambda>e. DisposeCall (fst e) (tu (snd e))) (take n ?m)"
        by (metis prefix_def take_map append_eq_conv_conj)
      with 2 have "length (unitsLive f p) \<le> length (unitsLive f (clangCalls s))"
        by (simp add: unitsLive_append dispose_only_shrinks)
      moreover have "length (unitsLive f (clangCalls s)) \<le> 1"
        using inv by (simp add: logInv_def split: option.splits)
      ultimately show ?thesis by simp
    qed
  qed
  have cnt: "unitCount f (clangCalls s @ ?ds) = disposeCount f (clangCalls s @ ?ds)"
    using inv dispose_all_count [OF d, of f]
    by (simp add: logInv_def unitCount_append disposeCount_append no_units_in_disposes
          tu_find_def split: option.splits)
  show ?thesis
    using live pre cnt
    by (simp add: cacheInv_def removeAllTranslationUnits_def logInv_def tu_find_def)
qed

lemma cacheInv_unsavedFiles: "cacheInv f (s\<lparr>unsavedFiles := u\<rparr>) = cacheInv f s"
  by (simp add: cacheInv_def)

lemma cacheInv_exec: "cacheInv f s \<Longrightarrow> cacheInv f (exec s op)"
  by (cases op)
     (simp_all add: cacheInv_get cacheInv_remove cacheInv_removeAll cacheInv_unsavedFiles
        primeEditorTranslationUnit_def reprimeEditorTranslationUnit_def)

lemma cacheInv_run: "cacheInv f s \<Longrightarrow> cacheInv f (run ops s)"
  unfolding run_def by (induction ops arbitrary: s) (simp_all add: cacheInv_exec)

lemma cacheInv_new: "cacheInv f (newSourceIndex db v)"
  by (simp add: cacheInv_def newSourceIndex_def logInv_def unitsLive_def unitCount_def
        disposeCount_def tu_find_def)

lemma unitCount_remove:
  "unitCount f (clangCalls (removeTranslationUnit g s)) = unitCount f (clangCalls s)"
  by (simp add: removeTranslationUnit_def unitCount_def split: option.splits)

lemma unitCount_removeAll:
  "unitCount f (clangCalls (removeAllTranslationUnits s)) = unitCount f (clangCalls s)"
  by (simp add: removeAllTranslationUnits_def unitCount_append no_units_in_disposes)

lemma cacheInv_no_record:
  assumes "cacheInv f s" and "tu_find f (translationUnits s) = None"
  shows "unitsLive f (clangCalls s) = [] \<and> disposeCount f (clangCalls s) = unitCount f (clangCalls s)"
  using assms by (simp add: cacheInv_def logInv_def)

text \<open>
  C7. In every state that a sequence of \<open>getTranslationUnit\<close>, \<open>removeTranslationUnit\<close>,
  \<open>removeAllTranslationUnits\<close>, \<open>primeEditorTranslationUnit\<close> and
  \<open>reprimeEditorTranslationUnit\<close>, with any changes of the unsaved files in between,
  reaches from a new index, and for every file: no key
  occurs twice in the map; the live units of the file are exactly the unit of its
  record, or none without a record; at no moment of the past, that is after no prefix
  of the calls to libclang, did the file have more than one live unit, so a rebuild
  disposes the old unit before it parses; and the units libclang has handed out for
  the file are as many as the dispose calls for it, plus one if a record is stored.
  The final cleanup closes the count. \<open>removeTranslationUnit\<close> for the file adds one
  dispose call, of the stored unit, if the file has a record and nothing otherwise;
  \<open>removeAllTranslationUnits\<close> adds one dispose call for every record, in the order of
  the keys, and empties the map. After either, the file has no record and no live
  unit, and the dispose calls for the file are exactly as many as the units that were
  handed out for it: \<open>N\<close> rebuilds that gave a unit have then made \<open>N\<close> dispose calls.
\<close>

theorem one_live_unit_per_file:
  assumes "s = run ops (newSourceIndex db v)"
  shows "distinct (map fst (translationUnits s))
       \<and> unitsLive f (clangCalls s) =
           (case tu_find f (translationUnits s) of Some st \<Rightarrow> [tu st] | None \<Rightarrow> [])
       \<and> (prefix p (clangCalls s) \<longrightarrow> length (unitsLive f p) \<le> 1)
       \<and> unitCount f (clangCalls s) =
           disposeCount f (clangCalls s) +
             (case tu_find f (translationUnits s) of Some st \<Rightarrow> 1 | None \<Rightarrow> 0)
       \<and> clangCalls (removeTranslationUnit f s) =
           clangCalls s @
             (case tu_find f (translationUnits s) of
                Some st \<Rightarrow> [DisposeCall f (tu st)] | None \<Rightarrow> [])
       \<and> tu_find f (translationUnits (removeTranslationUnit f s)) = None
       \<and> unitsLive f (clangCalls (removeTranslationUnit f s)) = []
       \<and> disposeCount f (clangCalls (removeTranslationUnit f s)) = unitCount f (clangCalls s)
       \<and> clangCalls (removeAllTranslationUnits s) =
           clangCalls s @ map (\<lambda>e. DisposeCall (fst e) (tu (snd e))) (translationUnits s)
       \<and> translationUnits (removeAllTranslationUnits s) = []
       \<and> unitsLive f (clangCalls (removeAllTranslationUnits s)) = []
       \<and> disposeCount f (clangCalls (removeAllTranslationUnits s)) = unitCount f (clangCalls s)"
proof -
  have inv: "cacheInv f s"
    using cacheInv_run [OF cacheInv_new, of f ops db v] assms by simp
  have state: "distinct (map fst (translationUnits s))
       \<and> unitsLive f (clangCalls s) =
           (case tu_find f (translationUnits s) of Some st \<Rightarrow> [tu st] | None \<Rightarrow> [])
       \<and> (prefix p (clangCalls s) \<longrightarrow> length (unitsLive f p) \<le> 1)
       \<and> unitCount f (clangCalls s) =
           disposeCount f (clangCalls s) +
             (case tu_find f (translationUnits s) of Some st \<Rightarrow> 1 | None \<Rightarrow> 0)"
    using inv by (simp add: cacheInv_def logInv_def sorted_keys_distinct)
  have one_calls: "clangCalls (removeTranslationUnit f s) =
           clangCalls s @
             (case tu_find f (translationUnits s) of
                Some st \<Rightarrow> [DisposeCall f (tu st)] | None \<Rightarrow> [])"
    by (simp add: removeTranslationUnit_def split: option.splits)
  have one_gone: "tu_find f (translationUnits (removeTranslationUnit f s)) = None"
    by (rule remove_find)
  have one: "unitsLive f (clangCalls (removeTranslationUnit f s)) = []
       \<and> disposeCount f (clangCalls (removeTranslationUnit f s)) = unitCount f (clangCalls s)"
    using cacheInv_no_record [OF cacheInv_remove [OF inv, of f] one_gone]
    by (simp add: unitCount_remove)
  have all_calls: "clangCalls (removeAllTranslationUnits s) =
           clangCalls s @ map (\<lambda>e. DisposeCall (fst e) (tu (snd e))) (translationUnits s)"
    by (simp add: removeAllTranslationUnits_def)
  have all_gone: "translationUnits (removeAllTranslationUnits s) = []"
    by (simp add: removeAllTranslationUnits_def)
  then have "tu_find f (translationUnits (removeAllTranslationUnits s)) = None"
    by (simp add: tu_find_def)
  then have all: "unitsLive f (clangCalls (removeAllTranslationUnits s)) = []
       \<and> disposeCount f (clangCalls (removeAllTranslationUnits s)) = unitCount f (clangCalls s)"
    using cacheInv_no_record [OF cacheInv_removeAll [OF inv]]
    by (simp add: unitCount_removeAll)
  from state one_calls one_gone one all_calls all_gone all show ?thesis
    by blast
qed

theorem one_live_unit_per_file_witness:
  "clangCalls (run sample_builds (newSourceIndex True 0)) =
     [ParseCall ''a.cpp'' [''-I.''] [] (Some 7), DisposeCall ''a.cpp'' 7,
      ParseCall ''a.cpp'' [''-I.'', ''-O2''] [] (Some 8)]
   \<and> tu_find ''a.cpp'' (translationUnits (run sample_builds (newSourceIndex True 0))) =
       Some \<lparr>compileArgs = [''-I.'', ''-O2''], lastWriteTime = 100, tu = 8\<rparr>
   \<and> unitsLive ''a.cpp'' (clangCalls (run sample_builds (newSourceIndex True 0))) = [8]
   \<and> prefix [ParseCall ''a.cpp'' [''-I.''] [] (Some 7), DisposeCall ''a.cpp'' 7]
        (clangCalls (run sample_builds (newSourceIndex True 0)))
   \<and> length (unitsLive ''a.cpp''
        [ParseCall ''a.cpp'' [''-I.''] [] (Some 7), DisposeCall ''a.cpp'' 7]) \<le> 1
   \<and> unitCount ''a.cpp'' (clangCalls (run sample_builds (newSourceIndex True 0))) = 2
   \<and> disposeCount ''a.cpp'' (clangCalls (run sample_builds (newSourceIndex True 0))) = 1
   \<and> clangCalls (removeTranslationUnit ''a.cpp'' (run sample_builds (newSourceIndex True 0))) =
       [ParseCall ''a.cpp'' [''-I.''] [] (Some 7), DisposeCall ''a.cpp'' 7,
        ParseCall ''a.cpp'' [''-I.'', ''-O2''] [] (Some 8), DisposeCall ''a.cpp'' 8]
   \<and> disposeCount ''a.cpp''
       (clangCalls (removeTranslationUnit ''a.cpp'' (run sample_builds (newSourceIndex True 0)))) = 2
   \<and> clangCalls (removeAllTranslationUnits (run sample_builds (newSourceIndex True 0))) =
       [ParseCall ''a.cpp'' [''-I.''] [] (Some 7), DisposeCall ''a.cpp'' 7,
        ParseCall ''a.cpp'' [''-I.'', ''-O2''] [] (Some 8), DisposeCall ''a.cpp'' 8]
   \<and> translationUnits (removeAllTranslationUnits (run sample_builds (newSourceIndex True 0))) = []
   \<and> disposeCount ''a.cpp''
       (clangCalls (removeAllTranslationUnits (run sample_builds (newSourceIndex True 0)))) = 2"
  using one_live_unit_per_file [of "run sample_builds (newSourceIndex True 0)" sample_builds
      True 0 "''a.cpp''"
      "[ParseCall ''a.cpp'' [''-I.''] [] (Some 7), DisposeCall ''a.cpp'' 7]"]
  by (simp add: run_def sample_builds_def sample_eval world_args_changed_def
        removeTranslationUnit_def removeAllTranslationUnits_def unitsLive_def unitCount_def
        disposeCount_def)

end
